theory Spec2Isabelle
  imports Main "HOL-Library.Sublist" "HOL-Library.Char_ord" "HOL-Library.List_Lexorder"
    "HOL-Library.Multiset"
begin

section \<open>Go strings and the functions of package strings the client uses\<close>

text \<open>
  A Go string is a sequence of bytes, and so is a \<open>[]byte\<close>; both are \<^typ>\<open>string\<close>
  here (a list of 8-bit characters), so the conversions \<open>[]byte(s)\<close> and \<open>string(b)\<close>
  are the identity.
\<close>

type_synonym bytes = string

text \<open>\<open>strings.HasPrefix(s, prefix)\<close>: \<open>len(s) >= len(prefix) && s[:len(prefix)] == prefix\<close>.\<close>

definition HasPrefix :: "string \<Rightarrow> string \<Rightarrow> bool" where
  "HasPrefix s pre = (length pre \<le> length s \<and> take (length pre) s = pre)"

text \<open>\<open>strings.TrimPrefix(s, prefix)\<close>: \<open>s\<close> without the leading \<open>prefix\<close>, or \<open>s\<close> itself.\<close>

definition TrimPrefix :: "string \<Rightarrow> string \<Rightarrow> string" where
  "TrimPrefix s pre = (if HasPrefix s pre then drop (length pre) s else s)"

text \<open>\<open>strings.Index(s, substr)\<close>: the index of the first instance of \<open>substr\<close> in \<open>s\<close>,
  \<open>None\<close> for Go's -1.\<close>

fun Index :: "string \<Rightarrow> string \<Rightarrow> nat option" where
  "Index [] sub = (if sub = [] then Some 0 else None)"
| "Index (c # s) sub =
     (if HasPrefix (c # s) sub then Some 0
      else (case Index s sub of None \<Rightarrow> None | Some i \<Rightarrow> Some (Suc i)))"

text \<open>\<open>strings.Contains(s, substr)\<close>: \<open>Index(s, substr) >= 0\<close>.\<close>

definition Contains :: "string \<Rightarrow> string \<Rightarrow> bool" where
  "Contains s sub = (Index s sub \<noteq> None)"

text \<open>\<open>strings.Cut(s, sep)\<close>: the text before and after the first instance of \<open>sep\<close>,
  and whether \<open>sep\<close> was found; \<open>(s, "", false)\<close> when it was not.\<close>

definition Cut :: "string \<Rightarrow> string \<Rightarrow> string \<times> string \<times> bool" where
  "Cut s sep =
     (case Index s sep of
        Some i \<Rightarrow> (take i s, drop (i + length sep) s, True)
      | None \<Rightarrow> (s, [], False))"

section \<open>Requests, responses and errors\<close>

text \<open>A Go \<open>error\<close> value, identified by its message.\<close>

datatype error = Error string

text \<open>
  An \<open>io.Reader\<close> that has \<open>pending\<close> bytes left to deliver and then ends, cleanly
  (\<open>fault = None\<close>, io.EOF) or with a read error.
\<close>

record Reader =
  pending :: bytes
  fault :: "error option"

text \<open>\<open>io.ReadAll(r)\<close> reads until an error or EOF and returns the data it read; a clean
  end is \<open>err == nil\<close>. The reader is left drained.\<close>

definition ReadAll :: "Reader \<Rightarrow> (bytes \<times> error option) \<times> Reader" where
  "ReadAll r = ((pending r, fault r), r\<lparr>pending := []\<rparr>)"

text \<open>\<open>bytes.NewReader(b)\<close>, and \<open>io.NopCloser\<close> around it: a fresh, unread stream over \<open>b\<close>.\<close>

definition NewReader :: "bytes \<Rightarrow> Reader" where
  "NewReader b = \<lparr>pending = b, fault = None\<rparr>"

definition NopCloser :: "Reader \<Rightarrow> Reader" where
  "NopCloser r = r"

text \<open>\<open>url.URL\<close>, with the exported fields of the standard library's struct.\<close>

record URL =
  Scheme :: string
  Opaque :: string
  User :: "(string \<times> string option) option"
  Host :: string
  Path :: string
  RawPath :: string
  OmitHost :: bool
  ForceQuery :: bool
  RawQuery :: string
  Fragment :: string
  RawFragment :: string

text \<open>\<open>http.Header\<close> is \<open>map[string][]string\<close>.\<close>

type_synonym Header = "string \<rightharpoonup> string list"

text \<open>
  \<open>Header.Set(key, value)\<close> replaces the values stored under the canonical form of
  \<open>key\<close> by the single \<open>value\<close>. Its only call site passes the literal
  \<open>"Authorization"\<close>, which is its own canonical form.
\<close>

definition Header_Set :: "Header \<Rightarrow> string \<Rightarrow> string \<Rightarrow> Header" where
  "Header_Set h key val = h(key \<mapsto> [val])"

text \<open>The fields of \<open>http.Request\<close> the client reads or writes; \<open>Body = None\<close> is a nil body.\<close>

record Request =
  Method :: string
  URL :: URL
  Header :: Header
  Body :: "Reader option"

section \<open>Per-route API keys\<close>

record APIKeys =
  DataAnalytics :: string
  PDFLegalEntities :: string
  PDFIndividuals :: string
  Affiliates :: string

definition apiKeyForPath :: "APIKeys \<Rightarrow> string \<Rightarrow> string" where
  "apiKeyForPath keys path0 =
     (let path = TrimPrefix path0 ''/'' in
      if HasPrefix path ''v1/contractors/pdf-file/'' then PDFLegalEntities keys
      else if HasPrefix path ''v1/individuals/pdf-reports'' then PDFIndividuals keys
      else if HasPrefix path ''v1/affiliates'' then Affiliates keys
      else DataAnalytics keys)"

text \<open>
  A request editor is \<open>func(ctx, req *http.Request) error\<close>: here it returns the request
  as the editor leaves it and the error (\<open>None\<close> for nil).
\<close>

definition WithBearerAuth :: "string \<Rightarrow> 'ctx \<Rightarrow> Request \<Rightarrow> Request \<times> error option" where
  "WithBearerAuth apiKey ctx req =
     (req\<lparr>Header := Header_Set (Header req) ''Authorization'' (''bearer '' @ apiKey)\<rparr>, None)"

definition WithAPIKeys :: "APIKeys \<Rightarrow> 'ctx \<Rightarrow> Request \<Rightarrow> Request \<times> error option" where
  "WithAPIKeys keys ctx req =
     (let key = apiKeyForPath keys (Path (URL req)) in
      (req\<lparr>Header := Header_Set (Header req) ''Authorization'' (''bearer '' @ key)\<rparr>, None))"

section \<open>Usage tracking\<close>







section \<open>The standard library the cache layer calls\<close>

text \<open>
  Four functions of Go's standard library are taken as they are, as the fields of
  \<open>std\<close>: the SHA-256 digest of a byte sequence (\<open>sha256.New\<close>, \<open>Write\<close>, \<open>Sum\<close>),
  \<open>url.Parse\<close>, \<open>(*URL).String\<close>, and the Unicode case mapping that \<open>strings.ToLower\<close>
  applies to a string with a byte outside ASCII. Every property below holds for all
  values of these fields.
\<close>

record go_std =
  sha256_Sum :: "bytes \<Rightarrow> bytes"
  url_Parse :: "string \<Rightarrow> error + URL"
  URL_String :: "URL \<Rightarrow> string"
  unicode_ToLower :: "string \<Rightarrow> string"

text \<open>\<open>hex.EncodeToString\<close>: two digits of \<open>"0123456789abcdef"\<close> for each byte.\<close>

definition hextable :: string where
  "hextable = ''0123456789abcdef''"

fun EncodeToString :: "bytes \<Rightarrow> string" where
  "EncodeToString [] = []"
| "EncodeToString (b # bs) =
     hextable ! (of_char b div 16) # hextable ! (of_char b mod 16) # EncodeToString bs"

text \<open>
  \<open>strings.ToLower\<close>: a string of ASCII bytes only has its letters \<open>A\<close>..\<open>Z\<close> moved to
  \<open>a\<close>..\<open>z\<close>; any other string goes through the Unicode mapping.
\<close>

definition lower_byte :: "char \<Rightarrow> char" where
  "lower_byte c =
     (if of_char CHR ''A'' \<le> (of_char c :: nat) \<and> (of_char c :: nat) \<le> of_char CHR ''Z''
      then char_of ((of_char c :: nat) + 32) else c)"

definition ToLower :: "go_std \<Rightarrow> string \<Rightarrow> string" where
  "ToLower std s =
     (if list_all (\<lambda>c. (of_char c :: nat) < 128) s then map lower_byte s
      else unicode_ToLower std s)"

section \<open>The cache interface and the cache key\<close>

record CachedResponse =
  cached_StatusCode :: int
  cached_Header :: Header
  cached_Body :: bytes

text \<open>
  The \<open>Cache\<close> interface. An implementation is an object with state \<open>'c\<close>; \<open>Get\<close> returns
  the response and \<open>ok\<close> as an option, and the state it leaves (a \<open>Get\<close> may evict).
\<close>

record 'c Cache =
  cache_Get :: "string \<Rightarrow> string \<Rightarrow> 'c \<Rightarrow> CachedResponse option \<times> 'c"
  cache_Set :: "string \<Rightarrow> string \<Rightarrow> CachedResponse \<Rightarrow> 'c \<Rightarrow> 'c"

text \<open>The fields of \<open>http.Response\<close> the cache layer reads or writes.\<close>

record Response =
  resp_StatusCode :: int
  resp_Header :: Header
  resp_Body :: "Reader option"
  resp_Request :: "Request option"

text \<open>\<open>HttpRequestDoer\<close>: \<open>Do(req) (*http.Response, error)\<close> of an object with state \<open>'t\<close>.\<close>

type_synonym 't HttpRequestDoer =
  "Request \<Rightarrow> 't \<Rightarrow> (Response option \<times> error option) \<times> 't"

record ('c, 't) cachingDoer =
  inner :: "'t HttpRequestDoer"
  cache :: "'c Cache"

text \<open>
  \<open>cacheKey\<close> writes method, URL and body into one SHA-256 state, so the digest is taken
  of their concatenation. It replaces \<open>req.Body\<close> through the pointer; the request as it
  leaves it is the second component of the result.
\<close>

definition cacheKey :: "go_std \<Rightarrow> Request \<Rightarrow> (string \<times> bytes \<times> error option) \<times> Request" where
  "cacheKey std req =
     (let h = [] @ Method req;
          h = h @ URL_String std (URL req)
      in case Body req of
           None \<Rightarrow> ((EncodeToString (sha256_Sum std h), [], None), req)
         | Some rd \<Rightarrow>
             (case ReadAll rd of
                ((bodyBytes, Some err), rd') \<Rightarrow> (([], [], Some err), req\<lparr>Body := Some rd'\<rparr>)
              | ((bodyBytes, None), rd') \<Rightarrow>
                  (let req = req\<lparr>Body := Some (NopCloser (NewReader bodyBytes))\<rparr>;
                       h = h @ bodyBytes
                   in ((EncodeToString (sha256_Sum std h), bodyBytes, None), req))))"

section \<open>Sanitizing the URL\<close>

definition sensitiveQueryParams :: "string list" where
  "sensitiveQueryParams =
     [''apikey'', ''api_key'', ''api-key'', ''token'', ''access_token'', ''authorization'']"

definition isSensitiveParam :: "go_std \<Rightarrow> string \<Rightarrow> bool" where
  "isSensitiveParam std name = (ToLower std name \<in> set sensitiveQueryParams)"

text \<open>
  \<open>url.Values\<close> is \<open>map[string][]string\<close>: here a list of keys with their values, no key
  twice. \<open>Values_append\<close> is \<open>m[key] = append(m[key], value)\<close> and \<open>Del\<close> is
  \<open>delete(v, key)\<close>.
\<close>

type_synonym Values = "(string \<times> string list) list"

fun Values_append :: "Values \<Rightarrow> string \<Rightarrow> string \<Rightarrow> Values" where
  "Values_append [] key val = [(key, [val])]"
| "Values_append ((k, vs) # m) key val =
     (if k = key then (k, vs @ [val]) # m else (k, vs) # Values_append m key val)"

definition Del :: "Values \<Rightarrow> string \<Rightarrow> Values" where
  "Del v key = filter (\<lambda>kv. fst kv \<noteq> key) v"

text \<open>\<open>url.QueryUnescape\<close>: \<open>%XX\<close> is the byte \<open>XX\<close>, \<open>+\<close> is a space, and a \<open>%\<close> that two
  hexadecimal digits do not follow is an error. \<open>unhex\<close> is applied to hexadecimal digits
  only (on any other byte Go's panics; it is 0 here).\<close>

definition ishex :: "char \<Rightarrow> bool" where
  "ishex c = (c \<in> set ''0123456789abcdefABCDEF'')"

definition unhex :: "char \<Rightarrow> nat" where
  "unhex c =
     (let n = of_char c in
      if of_char CHR ''0'' \<le> n \<and> n \<le> of_char CHR ''9'' then n - of_char CHR ''0''
      else if of_char CHR ''a'' \<le> n \<and> n \<le> of_char CHR ''f'' then n - of_char CHR ''a'' + 10
      else if of_char CHR ''A'' \<le> n \<and> n \<le> of_char CHR ''F'' then n - of_char CHR ''A'' + 10
      else 0)"

fun QueryUnescape :: "string \<Rightarrow> error + string" where
  "QueryUnescape [] = Inr []"
| "QueryUnescape (c # s) =
     (if c = CHR ''%'' then
        (case s of
           h1 # h2 # rest \<Rightarrow>
             (if ishex h1 \<and> ishex h2 then
                (case QueryUnescape rest of
                   Inl e \<Rightarrow> Inl e
                 | Inr t \<Rightarrow> Inr (char_of (unhex h1 * 16 + unhex h2) # t))
              else Inl (Error ''invalid URL escape''))
         | _ \<Rightarrow> Inl (Error ''invalid URL escape''))
      else
        (case QueryUnescape s of
           Inl e \<Rightarrow> Inl e
         | Inr t \<Rightarrow> Inr ((if c = CHR ''+'' then CHR '' '' else c) # t)))"

text \<open>\<open>url.QueryEscape\<close>: a space is \<open>+\<close>; letters, digits and \<open>-_.~\<close> stay; every other
  byte is \<open>%XX\<close> in upper-case hexadecimal.\<close>

definition shouldEscape :: "char \<Rightarrow> bool" where
  "shouldEscape c =
     (c \<notin> set ''abcdefghijklmnopqrstuvwxyzABCDEFGHIJKLMNOPQRSTUVWXYZ0123456789-_.~'')"

definition upperhex :: string where
  "upperhex = ''0123456789ABCDEF''"

definition escape_byte :: "char \<Rightarrow> string" where
  "escape_byte c =
     (if c = CHR '' '' then ''+''
      else if shouldEscape c
        then [CHR ''%'', upperhex ! (of_char c div 16), upperhex ! (of_char c mod 16)]
      else [c])"

definition QueryEscape :: "string \<Rightarrow> string" where
  "QueryEscape s = concat (map escape_byte s)"

text \<open>
  \<open>parseQuery\<close>, the loop of \<open>url.ParseQuery\<close>: the query is cut at each \<open>&\<close>; a piece
  with a semicolon, an empty piece, and a piece whose key or value does not unescape
  are skipped (they set the error that \<open>Query\<close> then discards). The recursion is on the
  text left after the cut, which is shorter.
\<close>

function parseQuery :: "Values \<Rightarrow> string \<Rightarrow> Values" where
  "parseQuery m query =
     (if query = [] then m
      else
        (case Cut query ''&'' of (key, query', _) \<Rightarrow>
           if Contains key '';'' then parseQuery m query'
           else if key = [] then parseQuery m query'
           else
             (case Cut key ''='' of (key, val, _) \<Rightarrow>
                (case QueryUnescape key of
                   Inl err1 \<Rightarrow> parseQuery m query'
                 | Inr key \<Rightarrow>
                     (case QueryUnescape val of
                        Inl err1 \<Rightarrow> parseQuery m query'
                      | Inr val \<Rightarrow> parseQuery (Values_append m key val) query')))))"
  by pat_completeness auto

lemma Index_bound: "Index s sub = Some i \<Longrightarrow> i + length sub \<le> length s"
proof (induction s arbitrary: i)
  case Nil
  then show ?case by (simp split: if_splits)
next
  case (Cons c s)
  then show ?case
    by (auto simp: HasPrefix_def split: if_splits option.splits)
qed

lemma Cut_rest_shorter:
  assumes "s \<noteq> []" and "sep \<noteq> []" and "Cut s sep = (before, rest, found)"
  shows "length rest < length s"
proof (cases "Index s sep")
  case None
  with assms show ?thesis by (simp add: Cut_def)
next
  case (Some i)
  from Index_bound[OF Some] assms(2) have "0 < i + length sep" and "i + length sep \<le> length s"
    by simp_all
  with assms(1,3) Some show ?thesis by (auto simp: Cut_def)
qed

termination parseQuery
proof (relation "measure (\<lambda>(m, query). length query)")
  show "wf (measure (\<lambda>(m, query). length query))" by simp
qed (auto dest!: Cut_rest_shorter[OF _ _ sym])

declare parseQuery.simps [simp del]

text \<open>\<open>(*URL).Query\<close>: \<open>ParseQuery(u.RawQuery)\<close> with its error discarded.\<close>

definition Query :: "URL \<Rightarrow> Values" where
  "Query u = parseQuery [] (RawQuery u)"

text \<open>
  \<open>Values.Encode\<close>: the keys are sorted (\<open>slices.Sort\<close>, the byte order of Go strings);
  for each key, each of its values is written as \<open>key=value\<close>, both escaped, after an
  \<open>&\<close> when the buffer is not empty.
\<close>

definition Values_lookup :: "Values \<Rightarrow> string \<Rightarrow> string list" where
  "Values_lookup v k = (case map_of v k of None \<Rightarrow> [] | Some vs \<Rightarrow> vs)"

definition Encode_value :: "string \<Rightarrow> string \<Rightarrow> string \<Rightarrow> string" where
  "Encode_value keyEscaped buf val =
     (if buf \<noteq> [] then buf @ ''&'' else buf) @ keyEscaped @ ''='' @ QueryEscape val"

definition Encode_key :: "Values \<Rightarrow> string \<Rightarrow> string \<Rightarrow> string" where
  "Encode_key v buf k = foldl (Encode_value (QueryEscape k)) buf (Values_lookup v k)"

definition Encode :: "Values \<Rightarrow> string" where
  "Encode v =
     (if v = [] then []
      else (let keys = sort (map fst v) in foldl (Encode_key v) [] keys))"

text \<open>
  \<open>sanitizeURL\<close>. The loop \<open>for param := range q\<close> visits the keys of the map in an
  order Go does not fix; \<open>Del_sensitive\<close> is the loop over the keys in a given order, and
  the order does not change what is left (lemma \<open>Del_sensitive_any_order\<close>).
\<close>

definition Del_sensitive :: "go_std \<Rightarrow> string list \<Rightarrow> Values \<Rightarrow> Values" where
  "Del_sensitive std params q =
     foldl (\<lambda>q param. if isSensitiveParam std param then Del q param else q) q params"

definition sanitizeURL :: "go_std \<Rightarrow> string \<Rightarrow> string" where
  "sanitizeURL std rawURL =
     (case url_Parse std rawURL of
        Inl err \<Rightarrow> rawURL
      | Inr u \<Rightarrow>
          (let q = Query u;
               q = Del_sensitive std (map fst q) q;
               u = u\<lparr>RawQuery := Encode q\<rparr>
           in URL_String std u))"

section \<open>The caching transport\<close>

text \<open>
  The objects \<open>Do\<close> works on: the state of the cache, the state of the wrapped
  transport, and the calls made on the two so far, in order.
\<close>

datatype call =
  Cache_Get string string
| Cache_Set string string CachedResponse
| Inner_Do Request

record ('c, 't) world =
  cache_state :: 'c
  inner_state :: 't
  calls :: "call list"

text \<open>
  What \<open>Do\<close> returns: the pair \<open>(*http.Response, error)\<close>, or a panic, which is what
  reading the body of a nil response (or a nil body) is when the wrapped transport
  returns one with a nil error. The wrapped transport is handed the request as
  \<open>cacheKey\<close> left it; it is taken not to change the request's URL, which \<open>Do\<close> reads
  again after the call (\<open>http.RoundTripper\<close> forbids the change). \<open>Header.Clone\<close> and
  \<open>bytes.Clone\<close> copy a value; the copy is the value here.
\<close>

datatype DoResult = Returned "Response option" "error option" | Panicked

definition Do ::
  "go_std \<Rightarrow> ('c, 't) cachingDoer \<Rightarrow> Request \<Rightarrow> ('c, 't) world \<Rightarrow> DoResult \<times> ('c, 't) world" where
  "Do std d req0 w0 =
     (case cacheKey std req0 of
        ((key, bodyBytes, Some err), req) \<Rightarrow> (Returned None (Some err), w0)
      | ((key, bodyBytes, None), req) \<Rightarrow>
          (let rawURL = sanitizeURL std (URL_String std (URL req));
               (hit, c1) = cache_Get (cache d) rawURL key (cache_state w0);
               w1 = w0\<lparr>cache_state := c1, calls := calls w0 @ [Cache_Get rawURL key]\<rparr>
           in case hit of
                Some cached \<Rightarrow>
                  (Returned
                     (Some \<lparr>resp_StatusCode = cached_StatusCode cached,
                            resp_Header = cached_Header cached,
                            resp_Body = Some (NopCloser (NewReader (cached_Body cached))),
                            resp_Request = Some req\<rparr>)
                     None, w1)
              | None \<Rightarrow>
                  (let ((resp, err), t1) = inner d req (inner_state w1);
                       w2 = w1\<lparr>inner_state := t1, calls := calls w1 @ [Inner_Do req]\<rparr>
                   in case err of
                        Some e \<Rightarrow> (Returned resp (Some e), w2)
                      | None \<Rightarrow>
                          (case resp of
                             None \<Rightarrow> (Panicked, w2)
                           | Some r \<Rightarrow>
                               (case resp_Body r of
                                  None \<Rightarrow> (Panicked, w2)
                                | Some rb \<Rightarrow>
                                    (case ReadAll rb of
                                       ((body, Some e), rb') \<Rightarrow>
                                         (Returned (Some (r\<lparr>resp_Body := Some rb'\<rparr>)) (Some e), w2)
                                     | ((body, None), rb') \<Rightarrow>
                                         (let skipCache =
                                                Contains (URL_String std (URL req)) ''/rateLimits'';
                                              stored = \<lparr>cached_StatusCode = resp_StatusCode r,
                                                        cached_Header = resp_Header r,
                                                        cached_Body = body\<rparr>;
                                              url = sanitizeURL std (URL_String std (URL req));
                                              w3 = (if \<not> skipCache
                                                    then w2\<lparr>cache_state :=
                                                              cache_Set (cache d) url key stored
                                                                (cache_state w2),
                                                            calls := calls w2 @ [Cache_Set url key stored]\<rparr>
                                                    else w2)
                                          in (Returned
                                                (Some (r\<lparr>resp_Body := Some (NopCloser (NewReader body))\<rparr>))
                                                None, w3))))))))"

section \<open>The cache and the transport of the repository's tests\<close>

text \<open>\<open>mapCache\<close>: a map from key to response; the URL is ignored.\<close>

definition mapCache :: "(string \<rightharpoonup> CachedResponse) Cache" where
  "mapCache =
     \<lparr>cache_Get = (\<lambda>url key store. (store key, store)),
      cache_Set = (\<lambda>url key resp store. store(key \<mapsto> resp))\<rparr>"

text \<open>\<open>fakeDoer\<close>: counts its calls and answers 200 with a fixed header and body.\<close>

definition fakeDoer :: "nat HttpRequestDoer" where
  "fakeDoer req n =
     ((Some \<lparr>resp_StatusCode = 200,
             resp_Header = [''X-Test'' \<mapsto> [''value'']],
             resp_Body = Some (NopCloser (NewReader ''{\"ok\":true}'')),
             resp_Request = Some req\<rparr>, None), n + 1)"

section \<open>The cache of the repository's example program\<close>

text \<open>
  \<open>jsonCache\<close> keeps an entry per key with the time it was stored. Its \<open>Get\<close> deletes
  an entry older than \<open>cacheTTL\<close> (seven days, in nanoseconds) and reports a miss; its
  \<open>Set\<close> skips every response whose status is not 200. \<open>now\<close> is what \<open>time.Now()\<close>
  reads when the cache is called. The file it writes after every change holds the same
  entries and is not modelled apart from them.
\<close>

record cacheEntry =
  entry_URL :: string
  entry_Key :: string
  entry_Timestamp :: int
  entry_Response :: CachedResponse

record jsonCache_state =
  entries :: "string \<rightharpoonup> cacheEntry"
  now :: int

definition cacheTTL :: int where
  "cacheTTL = 7 * 24 * 3600000000000"

definition jsonCache :: "jsonCache_state Cache" where
  "jsonCache =
     \<lparr>cache_Get = (\<lambda>url key c.
        case entries c key of
          None \<Rightarrow> (None, c)
        | Some entry \<Rightarrow>
            if now c - entry_Timestamp entry > cacheTTL
            then (None, c\<lparr>entries := (entries c)(key := None)\<rparr>)
            else (Some (entry_Response entry), c)),
      cache_Set = (\<lambda>url key resp c.
        if cached_StatusCode resp \<noteq> 200 then c
        else c\<lparr>entries := (entries c)(key \<mapsto>
               \<lparr>entry_URL = url, entry_Key = key, entry_Timestamp = now c,
                entry_Response = resp\<rparr>)\<rparr>)\<rparr>"

section \<open>The routing rules as the specification words them\<close>

text \<open>
  The specification gives both routing tables as ordered lists of path prefixes, matched
  against the path without one leading slash, first match wins. These definitions follow
  that wording; the theorems below compare the code with them.
\<close>

definition strip_leading_slash :: "string \<Rightarrow> string" where
  "strip_leading_slash p = (case p of [] \<Rightarrow> [] | c # r \<Rightarrow> if c = CHR ''/'' then r else p)"

definition first_match :: "(string \<times> 'a) list \<Rightarrow> 'a \<Rightarrow> string \<Rightarrow> 'a" where
  "first_match rules dflt p =
     (case find (\<lambda>r. prefix (fst r) p) rules of Some r \<Rightarrow> snd r | None \<Rightarrow> dflt)"

definition api_key_rules :: "APIKeys \<Rightarrow> (string \<times> string) list" where
  "api_key_rules keys =
     [(''v1/contractors/pdf-file/'', PDFLegalEntities keys),
      (''v1/individuals/pdf-reports'', PDFIndividuals keys),
      (''v1/affiliates'', Affiliates keys)]"



section \<open>The cache key as the specification words it\<close>

text \<open>
  The specification's \<open>computeKey(method, url, body)\<close>: a hash over the bytes of the
  method, the URL string and the body, the empty sequence when there is no body, written
  in hexadecimal. \<open>key_triple\<close> is the triple of a request and \<open>key_input\<close> the bytes that
  are hashed.
\<close>

definition body_bytes :: "Request \<Rightarrow> bytes" where
  "body_bytes req = (case Body req of None \<Rightarrow> [] | Some rd \<Rightarrow> pending rd)"

definition key_triple :: "go_std \<Rightarrow> Request \<Rightarrow> string \<times> string \<times> bytes" where
  "key_triple std req = (Method req, URL_String std (URL req), body_bytes req)"

definition key_input :: "string \<times> string \<times> bytes \<Rightarrow> bytes" where
  "key_input t = (case t of (m, u, b) \<Rightarrow> m @ u @ b)"

definition computeKey :: "go_std \<Rightarrow> string \<times> string \<times> bytes \<Rightarrow> string" where
  "computeKey std t = EncodeToString (sha256_Sum std (key_input t))"

text \<open>A request whose body, if it has one, can be read to its end.\<close>

definition readable :: "Request \<Rightarrow> bool" where
  "readable req = (case Body req of None \<Rightarrow> True | Some rd \<Rightarrow> fault rd = None)"


text \<open>The request with its body, if any, replaced by an unread stream over the same bytes.\<close>

definition buffered :: "Request \<Rightarrow> Request" where
  "buffered req =
     (case Body req of None \<Rightarrow> req | Some rd \<Rightarrow> req\<lparr>Body := Some (NewReader (pending rd))\<rparr>)"

section \<open>Stand-ins for running the model\<close>

text \<open>
  Values for the fields of \<open>std\<close>, to run the model on concrete requests. The hash
  returns its input (so it has no collisions at all); \<open>Parse\<close> rejects a string with an
  ASCII control byte, as \<open>url.Parse\<close> does, and otherwise cuts it at the first \<open>?\<close> into
  path and query; \<open>String\<close> joins the two again. On a URL of the shape
  \<open>scheme://host/path?query\<close> with no fragment and nothing to escape, sanitizing with these
  gives what the tests of \<open>sanitizeURL\<close> expect.
\<close>

definition path_query_URL :: "string \<Rightarrow> string \<Rightarrow> URL" where
  "path_query_URL p q =
     \<lparr>Scheme = [], Opaque = [], User = None, Host = [], Path = p, RawPath = [],
      OmitHost = False, ForceQuery = False, RawQuery = q, Fragment = [], RawFragment = []\<rparr>"

definition test_Parse :: "string \<Rightarrow> error + URL" where
  "test_Parse s =
     (if list_ex (\<lambda>c. (of_char c :: nat) < 32 \<or> (of_char c :: nat) = 127) s
      then Inl (Error ''net/url: invalid control character in URL'')
      else (case Cut s ''?'' of (p, q, found) \<Rightarrow> Inr (path_query_URL p q)))"

definition test_String :: "URL \<Rightarrow> string" where
  "test_String u = Path u @ (if RawQuery u \<noteq> [] then CHR ''?'' # RawQuery u else [])"

definition test_std :: go_std where
  "test_std =
     \<lparr>sha256_Sum = (\<lambda>b. b), url_Parse = test_Parse, URL_String = test_String,
      unicode_ToLower = (\<lambda>s. s)\<rparr>"

section \<open>Words for what \<open>Do\<close> does\<close>

text \<open>
  Names for the values the properties of \<open>Do\<close> speak about: the URL and the key it
  gives the cache, the lookup it makes, the calls one run adds to the record, the route
  test, and the snapshot it stores.
\<close>

definition cache_url :: "go_std \<Rightarrow> Request \<Rightarrow> string" where
  "cache_url std req = sanitizeURL std (URL_String std (URL req))"

definition request_key :: "go_std \<Rightarrow> Request \<Rightarrow> string" where
  "request_key std req = computeKey std (key_triple std req)"

definition lookup ::
  "go_std \<Rightarrow> ('c, 't) cachingDoer \<Rightarrow> Request \<Rightarrow> ('c, 't) world \<Rightarrow> CachedResponse option \<times> 'c" where
  "lookup std d req w =
     cache_Get (cache d) (cache_url std req) (request_key std req) (cache_state w)"

definition new_calls :: "('c, 't) world \<Rightarrow> ('c, 't) world \<Rightarrow> call list" where
  "new_calls w w' = drop (length (calls w)) (calls w')"

fun is_Inner_Do :: "call \<Rightarrow> bool" where
  "is_Inner_Do (Inner_Do req) = True"
| "is_Inner_Do c = False"

fun is_Cache_Set :: "call \<Rightarrow> bool" where
  "is_Cache_Set (Cache_Set url key resp) = True"
| "is_Cache_Set c = False"


definition rateLimits_route :: "go_std \<Rightarrow> Request \<Rightarrow> bool" where
  "rateLimits_route std req = Contains (URL_String std (URL req)) ''/rateLimits''"

definition snapshot :: "Response \<Rightarrow> bytes \<Rightarrow> CachedResponse" where
  "snapshot r body =
     \<lparr>cached_StatusCode = resp_StatusCode r, cached_Header = resp_Header r, cached_Body = body\<rparr>"

text \<open>A cache in which, under a given URL and key, a \<open>Get\<close> that misses leaves a state in
  which the next \<open>Get\<close> misses too.\<close>

definition miss_is_stable :: "'c Cache \<Rightarrow> string \<Rightarrow> string \<Rightarrow> bool" where
  "miss_is_stable C u k =
     (\<forall>c. fst (cache_Get C u k c) = None \<longrightarrow>
          fst (cache_Get C u k (snd (cache_Get C u k c))) = None)"


text \<open>The request that a call hands to the wrapped transport, if it is one.\<close>

fun sent_to_transport :: "call \<Rightarrow> Request option" where
  "sent_to_transport (Inner_Do req) = Some req"
| "sent_to_transport c = None"

section \<open>Stand-in requests, transports and worlds\<close>

text \<open>
  Requests, transports and a world to run \<open>Do\<close> on: a \<open>GET\<close> without a body, a
  \<open>POST\<close> with a body, a request whose body fails while it is read, a request with an
  API key in its query, a transport that always fails, one that answers with a given
  status, the client and the response of the tests (\<open>WithHTTPClient(fake)\<close>,
  \<open>WithCache(cache)\<close>), and the world before the first request.
\<close>

definition get_request :: "string \<Rightarrow> Request" where
  "get_request path =
     \<lparr>Method = ''GET'', URL = path_query_URL path [], Header = Map.empty, Body = None\<rparr>"

definition post_request :: "string \<Rightarrow> bytes \<Rightarrow> Request" where
  "post_request path body =
     \<lparr>Method = ''POST'', URL = path_query_URL path [], Header = Map.empty,
      Body = Some \<lparr>pending = body, fault = None\<rparr>\<rparr>"

definition broken_body_request :: Request where
  "broken_body_request =
     \<lparr>Method = ''POST'', URL = path_query_URL ''/v1/affiliates/query'' [], Header = Map.empty,
      Body = Some \<lparr>pending = ''{'', fault = Some (Error ''unexpected EOF'')\<rparr>\<rparr>"


definition failing_Doer :: "nat HttpRequestDoer" where
  "failing_Doer req n = ((None, Some (Error ''connection refused'')), n + 1)"

definition status_Doer :: "int \<Rightarrow> nat HttpRequestDoer" where
  "status_Doer code req n =
     ((Some \<lparr>resp_StatusCode = code, resp_Header = Map.empty,
             resp_Body = Some (NewReader ''gone''), resp_Request = Some req\<rparr>, None), n + 1)"

definition test_client :: "(string \<rightharpoonup> CachedResponse, nat) cachingDoer" where
  "test_client = \<lparr>inner = fakeDoer, cache = mapCache\<rparr>"

definition fake_response :: "Request \<Rightarrow> Response" where
  "fake_response req =
     \<lparr>resp_StatusCode = 200, resp_Header = [''X-Test'' \<mapsto> [''value'']],
      resp_Body = Some (NewReader ''{\"ok\":true}''), resp_Request = Some req\<rparr>"

definition fresh_world :: "(string \<rightharpoonup> CachedResponse, nat) world" where
  "fresh_world = \<lparr>cache_state = Map.empty, inner_state = 0, calls = []\<rparr>"


definition stale_world :: "string \<Rightarrow> (jsonCache_state, nat) world" where
  "stale_world key =
     \<lparr>cache_state =
        \<lparr>entries = [key \<mapsto> \<lparr>entry_URL = ''/v1/usr/1'', entry_Key = key, entry_Timestamp = 0,
                             entry_Response = \<lparr>cached_StatusCode = 200, cached_Header = Map.empty,
                                                cached_Body = ''{}''\<rparr>\<rparr>],
         now = cacheTTL + 1\<rparr>,
      inner_state = 0, calls = []\<rparr>"

section \<open>The sanitizer as the specification words it\<close>










section \<open>Properties of the string functions\<close>

lemma HasPrefix_iff_prefix: "HasPrefix s pre = prefix pre s"
  unfolding HasPrefix_def
  by (metis append_eq_conv_conj prefix_def prefix_length_le take_is_prefix)

lemma TrimPrefix_slash: "TrimPrefix p ''/'' = strip_leading_slash p"
  by (cases p) (auto simp: TrimPrefix_def HasPrefix_def strip_leading_slash_def)



lemma first_match_Nil: "first_match [] dflt p = dflt"
  by (simp add: first_match_def)

lemma first_match_Cons:
  "first_match ((pre, v) # rules) dflt p = (if prefix pre p then v else first_match rules dflt p)"
  by (simp add: first_match_def)


section \<open>The API-key selector\<close>

lemma apiKeyForPath_first_match:
  "apiKeyForPath keys p = first_match (api_key_rules keys) (DataAnalytics keys) (strip_leading_slash p)"
  unfolding apiKeyForPath_def api_key_rules_def Let_def TrimPrefix_slash HasPrefix_iff_prefix
    first_match_Cons first_match_Nil
  by (rule refl)

text \<open>
  Claim C8. The editor of \<open>WithAPIKeys\<close> returns no error and changes the request in one
  place only: the header \<open>Authorization\<close> holds the single value \<open>bearer \<close> followed by a
  key, whatever it held before. The key is the one of the first rule, in the order
  \<open>v1/contractors/pdf-file/\<close> (legal-entity PDF key), \<open>v1/individuals/pdf-reports\<close>
  (individuals PDF key), \<open>v1/affiliates\<close> (affiliates key), whose prefix starts the path
  without one leading slash, and the data/analytics key when no rule matches. The paths
  the specification names get the keys it names; \<open>/v1/individuals/full-name-info\<close> gets
  the default key.
\<close>

theorem WithAPIKeys_sets_bearer_of_first_match:
  "WithAPIKeys keys ctx req =
     (req\<lparr>Header := (Header req)(''Authorization'' \<mapsto>
        [''bearer '' @ first_match (api_key_rules keys) (DataAnalytics keys)
                         (strip_leading_slash (Path (URL req)))])\<rparr>, None)
   \<and> apiKeyForPath keys ''/v1/contractors/pdf-file/XYZ'' = PDFLegalEntities keys
   \<and> apiKeyForPath keys ''/v1/individuals/pdf-reports'' = PDFIndividuals keys
   \<and> apiKeyForPath keys ''/v1/affiliates/anything'' = Affiliates keys
   \<and> apiKeyForPath keys ''/v1/individuals/full-name-info'' = DataAnalytics keys"
proof -
  have "WithAPIKeys keys ctx req =
     (req\<lparr>Header := (Header req)(''Authorization'' \<mapsto>
        [''bearer '' @ first_match (api_key_rules keys) (DataAnalytics keys)
                         (strip_leading_slash (Path (URL req)))])\<rparr>, None)"
    by (simp add: WithAPIKeys_def Header_Set_def Let_def apiKeyForPath_first_match)
  moreover have "apiKeyForPath keys ''/v1/contractors/pdf-file/XYZ'' = PDFLegalEntities keys"
    by (simp add: apiKeyForPath_def TrimPrefix_def HasPrefix_def)
  moreover have "apiKeyForPath keys ''/v1/individuals/pdf-reports'' = PDFIndividuals keys"
    by (simp add: apiKeyForPath_def TrimPrefix_def HasPrefix_def)
  moreover have "apiKeyForPath keys ''/v1/affiliates/anything'' = Affiliates keys"
    by (simp add: apiKeyForPath_def TrimPrefix_def HasPrefix_def)
  moreover have "apiKeyForPath keys ''/v1/individuals/full-name-info'' = DataAnalytics keys"
    by (simp add: apiKeyForPath_def TrimPrefix_def HasPrefix_def)
  ultimately show ?thesis by blast
qed

section \<open>The usage classifier\<close>



section \<open>The cache key\<close>





lemma cacheKey_readable:
  "readable req \<Longrightarrow>
   cacheKey std req = ((computeKey std (key_triple std req), body_bytes req, None), buffered req)"
  by (auto simp: cacheKey_def readable_def computeKey_def key_triple_def key_input_def
      body_bytes_def buffered_def ReadAll_def NopCloser_def Let_def split: option.splits)

lemma cacheKey_read_error:
  "Body req = Some rd \<Longrightarrow> fault rd = Some e \<Longrightarrow>
   cacheKey std req = (([], [], Some e), req\<lparr>Body := Some (rd\<lparr>pending := []\<rparr>)\<rparr>)"
  by (simp add: cacheKey_def ReadAll_def Let_def)



text \<open>
  Where the URL ends and the body starts is not part of what is hashed: moving bytes
  from the end of the URL to the start of the body leaves the key as it was, for every
  hash function.
\<close>

lemma computeKey_boundary: "computeKey std (m, u @ s, b) = computeKey std (m, u, s @ b)"
  by (simp add: computeKey_def key_input_def)




section \<open>Sanitizing\<close>















lemma Del_sensitive_filter:
  "Del_sensitive std ks q
     = filter (\<lambda>kv. \<not> (fst kv \<in> set ks \<and> isSensitiveParam std (fst kv))) q"
proof (induction ks arbitrary: q)
  case Nil
  then show ?case by (simp add: Del_sensitive_def)
next
  case (Cons k ks)
  have "Del_sensitive std (k # ks) q
          = Del_sensitive std ks (if isSensitiveParam std k then Del q k else q)"
    by (simp add: Del_sensitive_def)
  also have "\<dots> = filter (\<lambda>kv. \<not> (fst kv \<in> set (k # ks) \<and> isSensitiveParam std (fst kv))) q"
    by (auto simp: Cons.IH Del_def intro: filter_cong)
  finally show ?case .
qed


lemma Del_sensitive_any_order:
  "set ks = set (map fst q) \<Longrightarrow> Del_sensitive std ks q = Del_sensitive std (map fst q) q"
  unfolding Del_sensitive_filter by simp































section \<open>The caching transport, path by path\<close>

lemma buffered_URL [simp]: "URL (buffered req) = URL req"
  by (simp add: buffered_def split: option.splits)

lemma buffered_Method [simp]: "Method (buffered req) = Method req"
  by (simp add: buffered_def split: option.splits)

lemma Do_read_error:
  "Body req = Some rd \<Longrightarrow> fault rd = Some e \<Longrightarrow> Do std d req w = (Returned None (Some e), w)"
  by (simp add: Do_def cacheKey_read_error)

lemma Do_hit:
  assumes "readable req" and "lookup std d req w = (Some cached, c1)"
  shows "Do std d req w =
    (Returned (Some \<lparr>resp_StatusCode = cached_StatusCode cached,
                     resp_Header = cached_Header cached,
                     resp_Body = Some (NewReader (cached_Body cached)),
                     resp_Request = Some (buffered req)\<rparr>) None,
     w\<lparr>cache_state := c1,
       calls := calls w @ [Cache_Get (cache_url std req) (request_key std req)]\<rparr>)"
  using assms
  by (simp add: Do_def cacheKey_readable lookup_def cache_url_def request_key_def NopCloser_def)

lemma Do_miss_error:
  assumes "readable req" and "lookup std d req w = (None, c1)"
    and "inner d (buffered req) (inner_state w) = ((resp, Some e), t1)"
  shows "Do std d req w =
    (Returned resp (Some e),
     w\<lparr>cache_state := c1, inner_state := t1,
       calls := calls w @ [Cache_Get (cache_url std req) (request_key std req),
                           Inner_Do (buffered req)]\<rparr>)"
  using assms
  by (simp add: Do_def cacheKey_readable lookup_def cache_url_def request_key_def)

lemma Do_miss_nil_response:
  assumes "readable req" and "lookup std d req w = (None, c1)"
    and "inner d (buffered req) (inner_state w) = ((None, None), t1)"
  shows "Do std d req w =
    (Panicked,
     w\<lparr>cache_state := c1, inner_state := t1,
       calls := calls w @ [Cache_Get (cache_url std req) (request_key std req),
                           Inner_Do (buffered req)]\<rparr>)"
  using assms
  by (simp add: Do_def cacheKey_readable lookup_def cache_url_def request_key_def)

lemma Do_miss_nil_body:
  assumes "readable req" and "lookup std d req w = (None, c1)"
    and "inner d (buffered req) (inner_state w) = ((Some r, None), t1)"
    and "resp_Body r = None"
  shows "Do std d req w =
    (Panicked,
     w\<lparr>cache_state := c1, inner_state := t1,
       calls := calls w @ [Cache_Get (cache_url std req) (request_key std req),
                           Inner_Do (buffered req)]\<rparr>)"
  using assms
  by (simp add: Do_def cacheKey_readable lookup_def cache_url_def request_key_def)

lemma Do_miss_body_error:
  assumes "readable req" and "lookup std d req w = (None, c1)"
    and "inner d (buffered req) (inner_state w) = ((Some r, None), t1)"
    and "resp_Body r = Some rb" and "fault rb = Some e"
  shows "Do std d req w =
    (Returned (Some (r\<lparr>resp_Body := Some (rb\<lparr>pending := []\<rparr>)\<rparr>)) (Some e),
     w\<lparr>cache_state := c1, inner_state := t1,
       calls := calls w @ [Cache_Get (cache_url std req) (request_key std req),
                           Inner_Do (buffered req)]\<rparr>)"
  using assms
  by (simp add: Do_def cacheKey_readable lookup_def cache_url_def request_key_def ReadAll_def)

lemma Do_miss_skip:
  assumes "readable req" and "lookup std d req w = (None, c1)"
    and "inner d (buffered req) (inner_state w) = ((Some r, None), t1)"
    and "resp_Body r = Some rb" and "fault rb = None"
    and "rateLimits_route std req"
  shows "Do std d req w =
    (Returned (Some (r\<lparr>resp_Body := Some (NewReader (pending rb))\<rparr>)) None,
     w\<lparr>cache_state := c1, inner_state := t1,
       calls := calls w @ [Cache_Get (cache_url std req) (request_key std req),
                           Inner_Do (buffered req)]\<rparr>)"
  using assms
  by (simp add: Do_def cacheKey_readable lookup_def cache_url_def request_key_def ReadAll_def
      rateLimits_route_def NopCloser_def Let_def)

lemma Do_miss_store:
  assumes "readable req" and "lookup std d req w = (None, c1)"
    and "inner d (buffered req) (inner_state w) = ((Some r, None), t1)"
    and "resp_Body r = Some rb" and "fault rb = None"
    and "\<not> rateLimits_route std req"
  shows "Do std d req w =
    (Returned (Some (r\<lparr>resp_Body := Some (NewReader (pending rb))\<rparr>)) None,
     w\<lparr>cache_state := cache_Set (cache d) (cache_url std req) (request_key std req)
                         (snapshot r (pending rb)) c1,
       inner_state := t1,
       calls := calls w @ [Cache_Get (cache_url std req) (request_key std req),
                           Inner_Do (buffered req),
                           Cache_Set (cache_url std req) (request_key std req)
                             (snapshot r (pending rb))]\<rparr>)"
  using assms
  by (simp add: Do_def cacheKey_readable lookup_def cache_url_def request_key_def ReadAll_def
      rateLimits_route_def NopCloser_def snapshot_def Let_def)

section \<open>The caching transport, case by case\<close>

lemma not_readable: "\<not> readable req \<Longrightarrow> \<exists>rd e. Body req = Some rd \<and> fault rd = Some e"
  by (auto simp: readable_def split: option.splits)


lemma Do_cases:
  obtains
    (read_error) rd e where "Body req = Some rd" "fault rd = Some e"
      "Do std d req w = (Returned None (Some e), w)"
  | (hit) cached c1 where "readable req" "lookup std d req w = (Some cached, c1)"
      "Do std d req w =
        (Returned (Some \<lparr>resp_StatusCode = cached_StatusCode cached,
                     resp_Header = cached_Header cached,
                     resp_Body = Some (NewReader (cached_Body cached)),
                     resp_Request = Some (buffered req)\<rparr>) None,
         w\<lparr>cache_state := c1,
           calls := calls w @ [Cache_Get (cache_url std req) (request_key std req)]\<rparr>)"
  | (no_store) res c1 t1 where "readable req" "lookup std d req w = (None, c1)"
      "Do std d req w =
        (res,
         w\<lparr>cache_state := c1, inner_state := t1,
           calls := calls w @ [Cache_Get (cache_url std req) (request_key std req),
                               Inner_Do (buffered req)]\<rparr>)"
      "snd (inner d (buffered req) (inner_state w)) = t1"
      "rateLimits_route std req \<or> (\<forall>r. res \<noteq> Returned (Some r) None)"
  | (store) r rb c1 t1 where "readable req" "lookup std d req w = (None, c1)"
      "inner d (buffered req) (inner_state w) = ((Some r, None), t1)"
      "resp_Body r = Some rb" "fault rb = None" "\<not> rateLimits_route std req"
      "Do std d req w =
        (Returned (Some (r\<lparr>resp_Body := Some (NewReader (pending rb))\<rparr>)) None,
         w\<lparr>cache_state := cache_Set (cache d) (cache_url std req) (request_key std req)
                             (snapshot r (pending rb)) c1,
           inner_state := t1,
           calls := calls w @ [Cache_Get (cache_url std req) (request_key std req),
                               Inner_Do (buffered req),
                               Cache_Set (cache_url std req) (request_key std req)
                                 (snapshot r (pending rb))]\<rparr>)"
proof (cases "readable req")
  case False
  then obtain rd e where b: "Body req = Some rd" and f: "fault rd = Some e"
    using not_readable by blast
  show ?thesis
    by (rule read_error[OF b f Do_read_error[OF b f]])
next
  case True
  obtain h c1 where l: "lookup std d req w = (h, c1)"
    by (cases "lookup std d req w")
  show ?thesis
  proof (cases h)
    case (Some cached)
    with l have l': "lookup std d req w = (Some cached, c1)" by simp
    show ?thesis
      by (rule hit[OF True l' Do_hit[OF True l']])
  next
    case None
    with l have l': "lookup std d req w = (None, c1)" by simp
    obtain resp err t1 where i: "inner d (buffered req) (inner_state w) = ((resp, err), t1)"
      by (cases "inner d (buffered req) (inner_state w)") auto
    then have t: "snd (inner d (buffered req) (inner_state w)) = t1" by simp
    show ?thesis
    proof (cases err)
      case (Some e)
      with i have i': "inner d (buffered req) (inner_state w) = ((resp, Some e), t1)" by simp
      show ?thesis
        by (rule no_store[OF True l' Do_miss_error[OF True l' i'] t]) simp
    next
      case noerr: None
      show ?thesis
      proof (cases resp)
        case None
        with i noerr have i': "inner d (buffered req) (inner_state w) = ((None, None), t1)"
          by simp
        show ?thesis
          by (rule no_store[OF True l' Do_miss_nil_response[OF True l' i'] t]) simp
      next
        case (Some r)
        with i noerr have i': "inner d (buffered req) (inner_state w) = ((Some r, None), t1)"
          by simp
        show ?thesis
        proof (cases "resp_Body r")
          case None
          show ?thesis
            by (rule no_store[OF True l' Do_miss_nil_body[OF True l' i' None] t]) simp
        next
          case body: (Some rb)
          show ?thesis
          proof (cases "fault rb")
            case (Some e)
            show ?thesis
              by (rule no_store[OF True l' Do_miss_body_error[OF True l' i' body Some] t]) simp
          next
            case None
            show ?thesis
            proof (cases "rateLimits_route std req")
              case skip: True
              show ?thesis
                by (rule no_store[OF True l' Do_miss_skip[OF True l' i' body None skip] t]) (simp add: skip)
            next
              case False
              show ?thesis
                by (rule store[OF True l' i' body None False
                      Do_miss_store[OF True l' i' body None False]])
            qed
          qed
        qed
      qed
    qed
  qed
qed


section \<open>Facts about the stand-ins\<close>

lemma get_request_facts:
  "readable (get_request p)" "buffered (get_request p) = get_request p"
  "URL_String test_std (URL (get_request p)) = p"
  by (simp_all add: get_request_def readable_def buffered_def test_std_def test_String_def
      path_query_URL_def)

lemma lookup_fresh:
  "lookup std \<lparr>inner = i, cache = mapCache\<rparr> req fresh_world = (None, Map.empty)"
  by (simp add: lookup_def mapCache_def fresh_world_def)

lemma test_client_first_run:
  assumes r: "readable req" and nr: "\<not> rateLimits_route test_std req"
  shows "Do test_std test_client req fresh_world =
    (Returned (Some (fake_response (buffered req))) None,
     \<lparr>cache_state = [request_key test_std req \<mapsto> snapshot (fake_response (buffered req)) ''{\"ok\":true}''],
      inner_state = 1,
      calls = [Cache_Get (cache_url test_std req) (request_key test_std req),
               Inner_Do (buffered req),
               Cache_Set (cache_url test_std req) (request_key test_std req)
                 (snapshot (fake_response (buffered req)) ''{\"ok\":true}'')]\<rparr>)"
proof -
  have l: "lookup test_std test_client req fresh_world = (None, Map.empty)"
    by (simp add: test_client_def lookup_fresh)
  have i: "inner test_client (buffered req) (inner_state fresh_world)
            = ((Some (fake_response (buffered req)), None), 1)"
    by (simp add: test_client_def fakeDoer_def fake_response_def fresh_world_def NopCloser_def)
  have b: "resp_Body (fake_response (buffered req)) = Some (NewReader ''{\"ok\":true}'')"
    and f: "fault (NewReader ''{\"ok\":true}'') = None"
    by (simp_all add: fake_response_def NewReader_def)
  show ?thesis
    unfolding Do_miss_store[OF r l i b f nr]
    by (simp add: fresh_world_def test_client_def mapCache_def fake_response_def NewReader_def)
qed


section \<open>Cache hits\<close>

lemma same_triple_same_cache_args:
  "key_triple std req2 = key_triple std req \<Longrightarrow>
   cache_url std req2 = cache_url std req \<and> request_key std req2 = request_key std req"
  by (simp add: key_triple_def cache_url_def request_key_def)

lemma Do_first_run_stored:
  assumes r: "readable req" and nr: "\<not> rateLimits_route std req"
    and run: "Do std d req w = (Returned (Some resp) None, w1)"
    and tr: "list_ex is_Inner_Do (new_calls w w1)"
  shows "\<exists>c. cache_state w1
                 = cache_Set (cache d) (cache_url std req) (request_key std req)
                     \<lparr>cached_StatusCode = resp_StatusCode resp, cached_Header = resp_Header resp,
                      cached_Body = (case resp_Body resp of None \<Rightarrow> [] | Some b \<Rightarrow> pending b)\<rparr> c
               \<and> (\<exists>b. resp_Body resp = Some (NewReader b))
               \<and> calls w1 = calls w @ [Cache_Get (cache_url std req) (request_key std req),
                     Inner_Do (buffered req),
                     Cache_Set (cache_url std req) (request_key std req)
                       \<lparr>cached_StatusCode = resp_StatusCode resp, cached_Header = resp_Header resp,
                        cached_Body = (case resp_Body resp of None \<Rightarrow> [] | Some b \<Rightarrow> pending b)\<rparr>]"
proof (cases rule: Do_cases[of req std d w])
  case (read_error rd e)
  with run show ?thesis by simp
next
  case (hit cached c1)
  with run tr show ?thesis by (auto simp: new_calls_def)
next
  case (no_store res c1 t1)
  with run nr show ?thesis by auto
next
  case (store r rb c1 t1)
  with run have resp_eq: "resp = r\<lparr>resp_Body := Some (NewReader (pending rb))\<rparr>"
    and w1_eq: "w1 = w\<lparr>cache_state := cache_Set (cache d) (cache_url std req) (request_key std req)
                             (snapshot r (pending rb)) c1,
           inner_state := t1,
           calls := calls w @ [Cache_Get (cache_url std req) (request_key std req),
                               Inner_Do (buffered req),
                               Cache_Set (cache_url std req) (request_key std req)
                                 (snapshot r (pending rb))]\<rparr>"
    by simp_all
  have snap: "snapshot r (pending rb) =
      \<lparr>cached_StatusCode = resp_StatusCode resp, cached_Header = resp_Header resp,
       cached_Body = (case resp_Body resp of None \<Rightarrow> [] | Some b \<Rightarrow> pending b)\<rparr>"
    by (simp add: resp_eq snapshot_def NewReader_def)
  have "cache_state w1 = cache_Set (cache d) (cache_url std req) (request_key std req)
          (snapshot r (pending rb)) c1"
    by (simp add: w1_eq)
  moreover have "\<exists>b. resp_Body resp = Some (NewReader b)"
    by (rule exI[of _ "pending rb"]) (simp add: resp_eq)
  moreover have "calls w1 = calls w @ [Cache_Get (cache_url std req) (request_key std req),
                     Inner_Do (buffered req),
                     Cache_Set (cache_url std req) (request_key std req) (snapshot r (pending rb))]"
    by (simp add: w1_eq)
  ultimately show ?thesis
    unfolding snap by blast
qed

text \<open>
  Claim C2. When the lookup that \<open>Do\<close> makes with the sanitized URL and the computed key
  reports a stored response, \<open>Do\<close> returns a response made of the stored status code,
  headers and body (as an unread stream) and a nil error; the lookup is the only call it
  adds and the state of the wrapped transport is as it was, so the transport is not
  called. Further, for a cache whose \<open>Get\<close> returns what the last \<open>Set\<close> for the same URL
  and key stored: after a first request, on a route without \<open>/rateLimits\<close>, that the
  transport answered with a nil error, a second request with the same method, URL and
  body gets the same status, headers and body, its only call is the lookup, and the two
  runs together hold exactly one call of the transport.
\<close>

theorem Do_cache_hit_skips_transport:
  "(readable req \<and> lookup std d req w = (Some cached, cs) \<longrightarrow>
      Do std d req w =
        (Returned (Some \<lparr>resp_StatusCode = cached_StatusCode cached,
                         resp_Header = cached_Header cached,
                         resp_Body = Some (NewReader (cached_Body cached)),
                         resp_Request = Some (buffered req)\<rparr>) None,
         w\<lparr>cache_state := cs,
           calls := calls w @ [Cache_Get (sanitizeURL std (URL_String std (URL req)))
                                 (request_key std req)]\<rparr>))
   \<and> ((\<forall>u k r c. fst (cache_Get (cache d) u k (cache_Set (cache d) u k r c)) = Some r)
       \<and> readable req \<and> readable req2 \<and> key_triple std req2 = key_triple std req
       \<and> \<not> Contains (URL_String std (URL req)) ''/rateLimits''
       \<and> Do std d req w = (Returned (Some resp) None, w1)
       \<and> list_ex is_Inner_Do (new_calls w w1) \<longrightarrow>
        Do std d req2 w1 =
          (Returned (Some \<lparr>resp_StatusCode = resp_StatusCode resp,
                           resp_Header = resp_Header resp,
                           resp_Body = resp_Body resp,
                           resp_Request = Some (buffered req2)\<rparr>) None,
           w1\<lparr>cache_state := snd (lookup std d req2 w1),
              calls := calls w1 @ [Cache_Get (sanitizeURL std (URL_String std (URL req)))
                                     (request_key std req)]\<rparr>)
        \<and> length (filter is_Inner_Do (new_calls w (snd (Do std d req2 w1)))) = 1)"
proof (intro conjI impI)
  assume "readable req \<and> lookup std d req w = (Some cached, cs)"
  then show "Do std d req w =
        (Returned (Some \<lparr>resp_StatusCode = cached_StatusCode cached,
                         resp_Header = cached_Header cached,
                         resp_Body = Some (NewReader (cached_Body cached)),
                         resp_Request = Some (buffered req)\<rparr>) None,
         w\<lparr>cache_state := cs,
           calls := calls w @ [Cache_Get (sanitizeURL std (URL_String std (URL req)))
                                 (request_key std req)]\<rparr>)"
    using Do_hit[of req std d w cached cs] by (simp add: cache_url_def)
next
  assume a: "(\<forall>u k r c. fst (cache_Get (cache d) u k (cache_Set (cache d) u k r c)) = Some r)
       \<and> readable req \<and> readable req2 \<and> key_triple std req2 = key_triple std req
       \<and> \<not> Contains (URL_String std (URL req)) ''/rateLimits''
       \<and> Do std d req w = (Returned (Some resp) None, w1)
       \<and> list_ex is_Inner_Do (new_calls w w1)"
  then have law: "\<And>u k r c. fst (cache_Get (cache d) u k (cache_Set (cache d) u k r c)) = Some r"
    and r: "readable req" and r2: "readable req2"
    and nr: "\<not> rateLimits_route std req"
    and run: "Do std d req w = (Returned (Some resp) None, w1)"
    and tr: "list_ex is_Inner_Do (new_calls w w1)"
    by (simp_all add: rateLimits_route_def)
  from a have same: "cache_url std req2 = cache_url std req" "request_key std req2 = request_key std req"
    using same_triple_same_cache_args[of std req2 req] by simp_all
  let ?snap = "\<lparr>cached_StatusCode = resp_StatusCode resp, cached_Header = resp_Header resp,
                 cached_Body = (case resp_Body resp of None \<Rightarrow> [] | Some b \<Rightarrow> pending b)\<rparr>"
  from Do_first_run_stored[OF r nr run tr] obtain c b where
    st: "cache_state w1 = cache_Set (cache d) (cache_url std req) (request_key std req) ?snap c"
    and body: "resp_Body resp = Some (NewReader b)"
    and cl: "calls w1 = calls w @ [Cache_Get (cache_url std req) (request_key std req),
                     Inner_Do (buffered req),
                     Cache_Set (cache_url std req) (request_key std req) ?snap]"
    by blast
  have "fst (lookup std d req2 w1) = Some ?snap"
    by (simp add: lookup_def same st law)
  then have l: "lookup std d req2 w1 = (Some ?snap, snd (lookup std d req2 w1))"
    by (metis prod.collapse)
  have hit: "Do std d req2 w1 =
          (Returned (Some \<lparr>resp_StatusCode = resp_StatusCode resp,
                           resp_Header = resp_Header resp,
                           resp_Body = resp_Body resp,
                           resp_Request = Some (buffered req2)\<rparr>) None,
           w1\<lparr>cache_state := snd (lookup std d req2 w1),
              calls := calls w1 @ [Cache_Get (sanitizeURL std (URL_String std (URL req)))
                                     (request_key std req)]\<rparr>)"
    using Do_hit[OF r2 l] by (simp add: same body NewReader_def) (simp add: cache_url_def)
  show "Do std d req2 w1 =
          (Returned (Some \<lparr>resp_StatusCode = resp_StatusCode resp,
                           resp_Header = resp_Header resp,
                           resp_Body = resp_Body resp,
                           resp_Request = Some (buffered req2)\<rparr>) None,
           w1\<lparr>cache_state := snd (lookup std d req2 w1),
              calls := calls w1 @ [Cache_Get (sanitizeURL std (URL_String std (URL req)))
                                     (request_key std req)]\<rparr>)"
    by (rule hit)
  show "length (filter is_Inner_Do (new_calls w (snd (Do std d req2 w1)))) = 1"
    unfolding hit by (simp add: new_calls_def cl)
qed

theorem Do_cache_hit_skips_transport_witness:
  "(\<forall>u k r c. fst (cache_Get (cache test_client) u k (cache_Set (cache test_client) u k r c)) = Some r)
   \<and> readable (get_request ''/v1/affiliates/result/'')
   \<and> \<not> Contains (URL_String test_std (URL (get_request ''/v1/affiliates/result/''))) ''/rateLimits''
   \<and> fst (Do test_std test_client (get_request ''/v1/affiliates/result/'') fresh_world)
       = Returned (Some (fake_response (get_request ''/v1/affiliates/result/''))) None
   \<and> list_ex is_Inner_Do
        (new_calls fresh_world
           (snd (Do test_std test_client (get_request ''/v1/affiliates/result/'') fresh_world)))
   \<and> fst (lookup test_std test_client (get_request ''/v1/affiliates/result/'')
             (snd (Do test_std test_client (get_request ''/v1/affiliates/result/'') fresh_world)))
       = Some \<lparr>cached_StatusCode = 200, cached_Header = [''X-Test'' \<mapsto> [''value'']],
               cached_Body = ''{\"ok\":true}''\<rparr>
   \<and> fst (Do test_std test_client (get_request ''/v1/affiliates/result/'')
             (snd (Do test_std test_client (get_request ''/v1/affiliates/result/'') fresh_world)))
       = Returned (Some (fake_response (get_request ''/v1/affiliates/result/''))) None
   \<and> inner_state
         (snd (Do test_std test_client (get_request ''/v1/affiliates/result/'')
                 (snd (Do test_std test_client (get_request ''/v1/affiliates/result/'') fresh_world))))
       = 1
   \<and> length (filter is_Inner_Do
         (calls (snd (Do test_std test_client (get_request ''/v1/affiliates/result/'')
                 (snd (Do test_std test_client (get_request ''/v1/affiliates/result/'') fresh_world))))))
       = 1"
proof -
  let ?req = "get_request ''/v1/affiliates/result/''"
  let ?snap = "snapshot (fake_response ?req) ''{\"ok\":true}''"
  let ?w1 = "\<lparr>cache_state = [request_key test_std ?req \<mapsto> ?snap], inner_state = 1::nat,
      calls = [Cache_Get (cache_url test_std ?req) (request_key test_std ?req),
               Inner_Do ?req,
               Cache_Set (cache_url test_std ?req) (request_key test_std ?req) ?snap]\<rparr>"
  have law: "\<forall>u k r c. fst (cache_Get (cache test_client) u k (cache_Set (cache test_client) u k r c)) = Some r"
    by (simp add: test_client_def mapCache_def)
  have r: "readable ?req"
    by (rule get_request_facts)
  have nc: "\<not> Contains (URL_String test_std (URL ?req)) ''/rateLimits''"
    by (simp add: get_request_facts Contains_def HasPrefix_def)
  then have nr: "\<not> rateLimits_route test_std ?req"
    by (simp add: rateLimits_route_def)
  have first: "Do test_std test_client ?req fresh_world
                = (Returned (Some (fake_response ?req)) None, ?w1)"
    using test_client_first_run[OF r nr] by (simp add: get_request_facts)
  have tr: "list_ex is_Inner_Do (new_calls fresh_world ?w1)"
    by (simp add: new_calls_def fresh_world_def)
  have l: "lookup test_std test_client ?req ?w1 = (Some ?snap, cache_state ?w1)"
    by (simp add: lookup_def test_client_def mapCache_def)
  note inst = Do_cache_hit_skips_transport[where std=test_std and d=test_client and req="?req"
      and ?req2.0="?req" and w=fresh_world and ?w1.0="?w1" and resp="fake_response ?req"]
  from inst law r nc first tr
  have second: "Do test_std test_client ?req ?w1 =
          (Returned (Some \<lparr>resp_StatusCode = resp_StatusCode (fake_response ?req),
                           resp_Header = resp_Header (fake_response ?req),
                           resp_Body = resp_Body (fake_response ?req),
                           resp_Request = Some (buffered ?req)\<rparr>) None,
           ?w1\<lparr>cache_state := snd (lookup test_std test_client ?req ?w1),
              calls := calls ?w1 @ [Cache_Get (sanitizeURL test_std (URL_String test_std (URL ?req)))
                                     (request_key test_std ?req)]\<rparr>)"
    and count: "length (filter is_Inner_Do
                  (new_calls fresh_world (snd (Do test_std test_client ?req ?w1)))) = 1"
    by blast+
  have res2: "fst (Do test_std test_client ?req ?w1) = Returned (Some (fake_response ?req)) None"
    unfolding second by (simp add: fake_response_def get_request_facts)
  have st2: "inner_state (snd (Do test_std test_client ?req ?w1)) = 1"
    unfolding second by simp
  have cnt: "length (filter is_Inner_Do (calls (snd (Do test_std test_client ?req ?w1)))) = 1"
    using count by (simp add: new_calls_def fresh_world_def)
  have snap: "?snap = \<lparr>cached_StatusCode = 200, cached_Header = [''X-Test'' \<mapsto> [''value'']],
               cached_Body = ''{\"ok\":true}''\<rparr>"
    by (simp add: snapshot_def fake_response_def)
  show ?thesis
    unfolding first fst_conv snd_conv
    using law r nc tr l res2 st2 cnt by (simp add: snap)
qed

section \<open>The URL the cache sees\<close>




section \<open>The route that is never stored\<close>






text \<open>The example's \<open>jsonCache\<close>, whose \<open>Get\<close> evicts, is such a cache as well.\<close>

lemma jsonCache_miss_is_stable: "miss_is_stable jsonCache u k"
  by (auto simp: miss_is_stable_def jsonCache_def split: option.splits if_splits)

section \<open>The request body after hashing\<close>

text \<open>
  Claim C6. For a request with a body that can be read to its end, \<open>cacheKey\<close> hashes
  all bytes of the body, returns them, and leaves the request with nothing but its body
  replaced, by an unread stream over the same bytes. Every request that the run of \<open>Do\<close>
  hands to the wrapped transport is that request, and on a cache miss it does hand it
  over: it is the second call of the run.
\<close>

theorem cacheKey_leaves_body_unread:
  "(Body req = Some rd \<and> fault rd = None \<longrightarrow>
      cacheKey std req =
        ((computeKey std (Method req, URL_String std (URL req), pending rd), pending rd, None),
         req\<lparr>Body := Some \<lparr>pending = pending rd, fault = None\<rparr>\<rparr>))
   \<and> (Body req = Some rd \<and> fault rd = None \<longrightarrow>
        list_all (\<lambda>c. sent_to_transport c = None
                     \<or> sent_to_transport c
                        = Some (req\<lparr>Body := Some \<lparr>pending = pending rd, fault = None\<rparr>\<rparr>))
          (new_calls w (snd (Do std d req w))))
   \<and> (Body req = Some rd \<and> fault rd = None \<and> fst (lookup std d req w) = None \<longrightarrow>
        map sent_to_transport (new_calls w (snd (Do std d req w))) ! 1
          = Some (req\<lparr>Body := Some \<lparr>pending = pending rd, fault = None\<rparr>\<rparr>))"
proof (intro conjI impI)
  assume a: "Body req = Some rd \<and> fault rd = None"
  then have r: "readable req" and b: "buffered req = req\<lparr>Body := Some \<lparr>pending = pending rd, fault = None\<rparr>\<rparr>"
    and t: "key_triple std req = (Method req, URL_String std (URL req), pending rd)"
    and bb: "body_bytes req = pending rd"
    by (simp_all add: readable_def buffered_def NewReader_def key_triple_def body_bytes_def)
  show "cacheKey std req =
        ((computeKey std (Method req, URL_String std (URL req), pending rd), pending rd, None),
         req\<lparr>Body := Some \<lparr>pending = pending rd, fault = None\<rparr>\<rparr>)"
    using cacheKey_readable[OF r, of std] by (simp add: b t bb)
  show "list_all (\<lambda>c. sent_to_transport c = None
                     \<or> sent_to_transport c
                        = Some (req\<lparr>Body := Some \<lparr>pending = pending rd, fault = None\<rparr>\<rparr>))
          (new_calls w (snd (Do std d req w)))"
    by (cases rule: Do_cases[of req std d w]) (simp_all add: b new_calls_def)
next
  assume a: "Body req = Some rd \<and> fault rd = None \<and> fst (lookup std d req w) = None"
  then have b: "buffered req = req\<lparr>Body := Some \<lparr>pending = pending rd, fault = None\<rparr>\<rparr>"
    by (simp add: buffered_def NewReader_def)
  show "map sent_to_transport (new_calls w (snd (Do std d req w))) ! 1
          = Some (req\<lparr>Body := Some \<lparr>pending = pending rd, fault = None\<rparr>\<rparr>)"
    using a by (cases rule: Do_cases[of req std d w]) (simp_all add: b new_calls_def)
qed

theorem cacheKey_leaves_body_unread_witness:
  "Body (post_request ''/v1/affiliates/query'' ''{}'') = Some \<lparr>pending = ''{}'', fault = None\<rparr>
   \<and> fault \<lparr>pending = ''{}'', fault = None\<rparr> = None
   \<and> fst (lookup test_std \<lparr>inner = fakeDoer, cache = mapCache\<rparr>
             (post_request ''/v1/affiliates/query'' ''{}'') fresh_world) = None
   \<and> snd (cacheKey test_std (post_request ''/v1/affiliates/query'' ''{}''))
       = post_request ''/v1/affiliates/query'' ''{}''
   \<and> fst (snd (fst (cacheKey test_std (post_request ''/v1/affiliates/query'' ''{}'')))) = ''{}''
   \<and> map sent_to_transport
         (new_calls fresh_world
            (snd (Do test_std \<lparr>inner = fakeDoer, cache = mapCache\<rparr>
                    (post_request ''/v1/affiliates/query'' ''{}'') fresh_world))) ! 1
       = Some (post_request ''/v1/affiliates/query'' ''{}'')"
proof -
  let ?d = "\<lparr>inner = fakeDoer, cache = mapCache\<rparr>"
  let ?req = "post_request ''/v1/affiliates/query'' ''{}''"
  let ?rd = "\<lparr>pending = ''{}'', fault = None\<rparr>"
  note inst = cacheKey_leaves_body_unread[where req="?req" and rd="?rd" and std=test_std
      and d="?d" and w=fresh_world]
  have b: "Body ?req = Some ?rd" and f: "fault ?rd = None"
    by (simp_all add: post_request_def)
  have same: "?req\<lparr>Body := Some \<lparr>pending = pending ?rd, fault = None\<rparr>\<rparr> = ?req"
    by (simp add: post_request_def)
  have l: "fst (lookup test_std ?d ?req fresh_world) = None"
    by (simp add: lookup_fresh)
  from inst b f l show ?thesis
    unfolding same by simp
qed

section \<open>Failed requests\<close>

text \<open>
  Claim C7, as amended. When reading the request body fails, \<open>Do\<close> returns that error
  and no response, and the cache, the transport and the record of calls are as they
  were. When the lookup misses and the transport returns an error, \<open>Do\<close> returns the
  transport's response and error as they are; the calls it made are the lookup and the
  transport call, no \<open>Set\<close>, and the cache is in the state the lookup left. For a cache
  whose \<open>Get\<close> leaves its state as it was, every run that makes no \<open>Set\<close> leaves the cache
  state as it was.
\<close>

theorem Do_failure_stores_nothing:
  "(Body req = Some rd \<and> fault rd = Some e \<longrightarrow> Do std d req w = (Returned None (Some e), w))
   \<and> (readable req \<and> lookup std d req w = (None, cs)
       \<and> inner d (buffered req) (inner_state w) = ((resp, Some e), ts) \<longrightarrow>
        Do std d req w =
          (Returned resp (Some e),
           w\<lparr>cache_state := cs, inner_state := ts,
             calls := calls w @ [Cache_Get (cache_url std req) (request_key std req),
                                 Inner_Do (buffered req)]\<rparr>))
   \<and> ((\<forall>u k c. snd (cache_Get (cache d) u k c) = c)
       \<and> \<not> list_ex is_Cache_Set (new_calls w (snd (Do std d req w))) \<longrightarrow>
        cache_state (snd (Do std d req w)) = cache_state w)"
proof (intro conjI impI)
  assume "Body req = Some rd \<and> fault rd = Some e"
  then show "Do std d req w = (Returned None (Some e), w)"
    by (simp add: Do_read_error)
next
  assume "readable req \<and> lookup std d req w = (None, cs)
       \<and> inner d (buffered req) (inner_state w) = ((resp, Some e), ts)"
  then show "Do std d req w =
          (Returned resp (Some e),
           w\<lparr>cache_state := cs, inner_state := ts,
             calls := calls w @ [Cache_Get (cache_url std req) (request_key std req),
                                 Inner_Do (buffered req)]\<rparr>)"
    by (simp add: Do_miss_error)
next
  assume a: "(\<forall>u k c. snd (cache_Get (cache d) u k c) = c)
       \<and> \<not> list_ex is_Cache_Set (new_calls w (snd (Do std d req w)))"
  then have pure: "snd (lookup std d req w) = cache_state w"
    by (simp add: lookup_def)
  show "cache_state (snd (Do std d req w)) = cache_state w"
  proof (cases rule: Do_cases[of req std d w])
    case (store r rb c1 t1)
    with a show ?thesis by (simp add: new_calls_def)
  qed (use pure in auto)
qed

theorem Do_failure_stores_nothing_witness:
  "Body broken_body_request = Some \<lparr>pending = ''{'', fault = Some (Error ''unexpected EOF'')\<rparr>
   \<and> Do test_std \<lparr>inner = fakeDoer, cache = mapCache\<rparr> broken_body_request fresh_world
       = (Returned None (Some (Error ''unexpected EOF'')), fresh_world)
   \<and> readable (get_request ''/v1/usr/1'')
   \<and> lookup test_std \<lparr>inner = failing_Doer, cache = mapCache\<rparr> (get_request ''/v1/usr/1'')
        fresh_world = (None, Map.empty)
   \<and> inner \<lparr>inner = failing_Doer, cache = mapCache\<rparr> (buffered (get_request ''/v1/usr/1''))
        (inner_state fresh_world) = ((None, Some (Error ''connection refused'')), 1)
   \<and> Do test_std \<lparr>inner = failing_Doer, cache = mapCache\<rparr> (get_request ''/v1/usr/1'') fresh_world
       = (Returned None (Some (Error ''connection refused'')),
          \<lparr>cache_state = Map.empty, inner_state = 1,
           calls = [Cache_Get (cache_url test_std (get_request ''/v1/usr/1''))
                      (request_key test_std (get_request ''/v1/usr/1'')),
                    Inner_Do (get_request ''/v1/usr/1'')]\<rparr>)
   \<and> (\<forall>u k c. snd (cache_Get (cache \<lparr>inner = failing_Doer, cache = mapCache\<rparr>) u k c) = c)
   \<and> cache_state (snd (Do test_std \<lparr>inner = failing_Doer, cache = mapCache\<rparr>
                          (get_request ''/v1/usr/1'') fresh_world))
       = cache_state fresh_world"
proof -
  let ?d = "\<lparr>inner = failing_Doer, cache = mapCache\<rparr>"
  let ?req = "get_request ''/v1/usr/1''"
  let ?rd = "\<lparr>pending = ''{'', fault = Some (Error ''unexpected EOF'')\<rparr>"
  note rd_case = Do_failure_stores_nothing[where req=broken_body_request and rd="?rd"
      and e="Error ''unexpected EOF''" and std=test_std and w=fresh_world
      and d="\<lparr>inner = fakeDoer, cache = mapCache\<rparr>"]
  note tr_case = Do_failure_stores_nothing[where req="?req" and std=test_std and d="?d"
      and w=fresh_world and cs=Map.empty and resp=None and e="Error ''connection refused''"
      and ts=1]
  have b: "Body broken_body_request = Some ?rd" "fault ?rd = Some (Error ''unexpected EOF'')"
    by (simp_all add: broken_body_request_def)
  have r: "readable ?req"
    by (rule get_request_facts)
  have l: "lookup test_std ?d ?req fresh_world = (None, Map.empty)"
    by (rule lookup_fresh)
  have i: "inner ?d (buffered ?req) (inner_state fresh_world)
            = ((None, Some (Error ''connection refused'')), 1)"
    by (simp add: failing_Doer_def fresh_world_def)
  have p: "\<forall>u k c. snd (cache_Get (cache ?d) u k c) = c"
    by (simp add: mapCache_def)
  have one: "Do test_std \<lparr>inner = fakeDoer, cache = mapCache\<rparr> broken_body_request fresh_world
       = (Returned None (Some (Error ''unexpected EOF'')), fresh_world)"
    using rd_case b by blast
  have two: "Do test_std ?d ?req fresh_world
       = (Returned None (Some (Error ''connection refused'')),
          fresh_world\<lparr>cache_state := Map.empty, inner_state := 1,
            calls := calls fresh_world @
              [Cache_Get (cache_url test_std ?req) (request_key test_std ?req),
               Inner_Do (buffered ?req)]\<rparr>)"
    using tr_case r l i by blast
  have "\<not> list_ex is_Cache_Set (new_calls fresh_world (snd (Do test_std ?d ?req fresh_world)))"
    unfolding two by (simp add: new_calls_def)
  with tr_case p
  have three: "cache_state (snd (Do test_std ?d ?req fresh_world)) = cache_state fresh_world"
    by blast
  from two have two': "Do test_std ?d ?req fresh_world
       = (Returned None (Some (Error ''connection refused'')),
          \<lparr>cache_state = Map.empty, inner_state = 1,
           calls = [Cache_Get (cache_url test_std ?req) (request_key test_std ?req),
                    Inner_Do ?req]\<rparr>)"
    by (simp add: fresh_world_def get_request_facts)
  from b(1) one r l i two' p three show ?thesis by blast
qed

text \<open>
  The claim as it stands fails for a cache whose \<open>Get\<close> changes what is stored. With the
  example's \<open>jsonCache\<close> holding an expired entry under the key, the lookup of a request
  that then fails in the transport deletes that entry: no \<open>Set\<close> is made, and the stored
  state is not what it was.
\<close>

theorem lookup_evicts_on_failed_request_counterexample:
  "fst (Do test_std \<lparr>inner = failing_Doer, cache = jsonCache\<rparr> (get_request ''/v1/usr/1'')
          (stale_world (request_key test_std (get_request ''/v1/usr/1''))))
     = Returned None (Some (Error ''connection refused''))
   \<and> entries (cache_state (stale_world (request_key test_std (get_request ''/v1/usr/1''))))
         (request_key test_std (get_request ''/v1/usr/1'')) \<noteq> None
   \<and> entries (cache_state
         (snd (Do test_std \<lparr>inner = failing_Doer, cache = jsonCache\<rparr> (get_request ''/v1/usr/1'')
                 (stale_world (request_key test_std (get_request ''/v1/usr/1''))))))
         (request_key test_std (get_request ''/v1/usr/1'')) = None
   \<and> \<not> list_ex is_Cache_Set
         (calls (snd (Do test_std \<lparr>inner = failing_Doer, cache = jsonCache\<rparr>
                        (get_request ''/v1/usr/1'')
                        (stale_world (request_key test_std (get_request ''/v1/usr/1''))))))"
proof -
  let ?d = "\<lparr>inner = failing_Doer, cache = jsonCache\<rparr>"
  let ?req = "get_request ''/v1/usr/1''"
  let ?k = "request_key test_std ?req"
  let ?w = "stale_world ?k"
  have r: "readable ?req"
    by (rule get_request_facts)
  have l: "lookup test_std ?d ?req ?w = (None, \<lparr>entries = Map.empty, now = cacheTTL + 1\<rparr>)"
    by (simp add: lookup_def jsonCache_def stale_world_def cacheTTL_def)
  have i: "inner ?d (buffered ?req) (inner_state ?w) = ((None, Some (Error ''connection refused'')), 1)"
    by (simp add: failing_Doer_def stale_world_def)
  show ?thesis
    unfolding Do_miss_error[OF r l i] by (simp add: stale_world_def)
qed

section \<open>Responses of any status\<close>

text \<open>
  Claim C10. When the lookup misses, the transport returns a response and a nil error,
  the body of the response can be read to its end and the request's URL string does not
  contain \<open>/rateLimits\<close>, then \<open>Do\<close> calls \<open>Set\<close> with the sanitized URL, the key and a
  snapshot of the response's status code, headers and body: for every status code
  \<open>code\<close>, with no test of it.
\<close>

theorem Do_stores_any_status:
  "readable req \<and> lookup std d req w = (None, cs)
   \<and> inner d (buffered req) (inner_state w) = ((Some (r\<lparr>resp_StatusCode := code\<rparr>), None), ts)
   \<and> resp_Body r = Some rb \<and> fault rb = None
   \<and> \<not> Contains (URL_String std (URL req)) ''/rateLimits'' \<longrightarrow>
     Do std d req w =
       (Returned (Some (r\<lparr>resp_StatusCode := code, resp_Body := Some (NewReader (pending rb))\<rparr>)) None,
        w\<lparr>cache_state :=
            cache_Set (cache d) (cache_url std req) (request_key std req)
              \<lparr>cached_StatusCode = code, cached_Header = resp_Header r, cached_Body = pending rb\<rparr> cs,
          inner_state := ts,
          calls := calls w @
            [Cache_Get (cache_url std req) (request_key std req),
             Inner_Do (buffered req),
             Cache_Set (cache_url std req) (request_key std req)
               \<lparr>cached_StatusCode = code, cached_Header = resp_Header r,
                cached_Body = pending rb\<rparr>]\<rparr>)"
proof
  assume a: "readable req \<and> lookup std d req w = (None, cs)
   \<and> inner d (buffered req) (inner_state w) = ((Some (r\<lparr>resp_StatusCode := code\<rparr>), None), ts)
   \<and> resp_Body r = Some rb \<and> fault rb = None
   \<and> \<not> Contains (URL_String std (URL req)) ''/rateLimits''"
  then have "\<not> rateLimits_route std req"
    by (simp add: rateLimits_route_def)
  with a show "Do std d req w =
       (Returned (Some (r\<lparr>resp_StatusCode := code, resp_Body := Some (NewReader (pending rb))\<rparr>)) None,
        w\<lparr>cache_state :=
            cache_Set (cache d) (cache_url std req) (request_key std req)
              \<lparr>cached_StatusCode = code, cached_Header = resp_Header r, cached_Body = pending rb\<rparr> cs,
          inner_state := ts,
          calls := calls w @
            [Cache_Get (cache_url std req) (request_key std req),
             Inner_Do (buffered req),
             Cache_Set (cache_url std req) (request_key std req)
               \<lparr>cached_StatusCode = code, cached_Header = resp_Header r,
                cached_Body = pending rb\<rparr>]\<rparr>)"
    using Do_miss_store[of req std d w cs "r\<lparr>resp_StatusCode := code\<rparr>" ts rb]
    by (simp add: snapshot_def)
qed

theorem Do_stores_any_status_witness:
  "readable (get_request ''/v1/usr/1'')
   \<and> lookup test_std \<lparr>inner = status_Doer 500, cache = mapCache\<rparr> (get_request ''/v1/usr/1'')
        fresh_world = (None, Map.empty)
   \<and> \<not> Contains (URL_String test_std (URL (get_request ''/v1/usr/1''))) ''/rateLimits''
   \<and> calls (snd (Do test_std \<lparr>inner = status_Doer 500, cache = mapCache\<rparr>
                 (get_request ''/v1/usr/1'') fresh_world))
      = [Cache_Get (cache_url test_std (get_request ''/v1/usr/1''))
           (request_key test_std (get_request ''/v1/usr/1'')),
         Inner_Do (get_request ''/v1/usr/1''),
         Cache_Set (cache_url test_std (get_request ''/v1/usr/1''))
           (request_key test_std (get_request ''/v1/usr/1''))
           \<lparr>cached_StatusCode = 500, cached_Header = Map.empty, cached_Body = ''gone''\<rparr>]"
proof -
  let ?d = "\<lparr>inner = status_Doer 500, cache = mapCache\<rparr>"
  let ?req = "get_request ''/v1/usr/1''"
  let ?r = "\<lparr>resp_StatusCode = 500, resp_Header = Map.empty,
             resp_Body = Some (NewReader ''gone''), resp_Request = Some ?req\<rparr>"
  have l: "lookup test_std ?d ?req fresh_world = (None, Map.empty)"
    by (rule lookup_fresh)
  have i: "inner ?d (buffered ?req) (inner_state fresh_world)
            = ((Some (?r\<lparr>resp_StatusCode := 500\<rparr>), None), 1)"
    by (simp add: get_request_facts status_Doer_def fresh_world_def)
  have b: "resp_Body ?r = Some (NewReader ''gone'')" "fault (NewReader ''gone'') = None"
    by (simp_all add: NewReader_def)
  have c: "\<not> Contains (URL_String test_std (URL ?req)) ''/rateLimits''"
    by (simp add: get_request_facts Contains_def HasPrefix_def)
  from Do_stores_any_status[where req="?req" and std=test_std and d="?d" and w=fresh_world
      and cs=Map.empty and r="?r" and code=500 and ts=1 and rb="NewReader ''gone''"]
    get_request_facts(1)[of "''/v1/usr/1''"] l i b c
  have "Do test_std ?d ?req fresh_world =
       (Returned (Some (?r\<lparr>resp_StatusCode := 500,
                           resp_Body := Some (NewReader (pending (NewReader ''gone'')))\<rparr>)) None,
        fresh_world\<lparr>cache_state :=
            cache_Set (cache ?d) (cache_url test_std ?req) (request_key test_std ?req)
              \<lparr>cached_StatusCode = 500, cached_Header = resp_Header ?r,
               cached_Body = pending (NewReader ''gone'')\<rparr> Map.empty,
          inner_state := 1,
          calls := calls fresh_world @
            [Cache_Get (cache_url test_std ?req) (request_key test_std ?req),
             Inner_Do (buffered ?req),
             Cache_Set (cache_url test_std ?req) (request_key test_std ?req)
               \<lparr>cached_StatusCode = 500, cached_Header = resp_Header ?r,
                cached_Body = pending (NewReader ''gone'')\<rparr>]\<rparr>)"
    by blast
  then have "calls (snd (Do test_std ?d ?req fresh_world)) =
            [Cache_Get (cache_url test_std ?req) (request_key test_std ?req),
             Inner_Do ?req,
             Cache_Set (cache_url test_std ?req) (request_key test_std ?req)
               \<lparr>cached_StatusCode = 500, cached_Header = Map.empty, cached_Body = ''gone''\<rparr>]"
    by (simp add: fresh_world_def get_request_facts NewReader_def)
  with get_request_facts(1)[of "''/v1/usr/1''"] l c show ?thesis by simp
qed

end
